theory Spec2Isabelle
  imports Complex_Main
begin

section \<open>The parameter panel of \<open>xija/gui_fit/app.py\<close>\<close>

text \<open>
  The development embeds the parts of \<open>app.py\<close> that keep a parameter, its bounds and its
  slider consistent (\<open>PanelText\<close>, \<open>PanelSlider\<close>, \<open>PanelCheckBox\<close>, \<open>ParamsPanel\<close>), the
  monitoring tick \<open>MainWindow.fit_monitor\<close> and the command interpreter
  \<open>MainWindow.parse_command\<close>.

  Modelling decisions:
  \<^item> Python floats are real numbers: arithmetic is exact, there is no NaN, no infinity and
    no rounding. Every statement below is a statement about that idealisation.
  \<^item> An object that is mutated in place is a record that is passed in and returned.
  \<^item> A Python exception that leaves a method is the value \<open>Raised e s\<close>, where \<open>s\<close> is the
    state at the moment of the raise: the assignments made before it stay visible.
  \<^item> Text buffers of the widgets, console output and the rendering of plots are not part
    of the state. The calls of \<open>update_plots\<close> are counted.
  \<^item> \<open>QSlider.setValue\<close> is Qt: it bounds its argument by the slider's minimum and
    maximum. The conversion of a Python integer to a C \<open>int\<close> is not modelled.
\<close>

subsection \<open>Errors and outcomes\<close>

datatype error = ZeroDivisionError | KeyError | IndexError | ShapeMismatch

datatype 's outcome = Ok 's | Raised error 's

fun state_of :: "'s outcome \<Rightarrow> 's" where
  "state_of (Ok s) = s"
| "state_of (Raised e s) = s"

fun raised :: "'s outcome \<Rightarrow> error option" where
  "raised (Ok s) = None"
| "raised (Raised e s) = Some e"

subsection \<open>Parameters\<close>

text \<open>
  A parameter of the model (\<open>par.full_name\<close>, \<open>par.val\<close>, \<open>par.min\<close>, \<open>par.max\<close>,
  \<open>par.frozen\<close>). The fields \<open>min\<close> and \<open>max\<close> are called \<open>min_val\<close> and \<open>max_val\<close> here.
\<close>

record par =
  full_name :: string
  val :: real
  min_val :: real
  max_val :: real
  frozen :: bool

text \<open>
  \<open>setattr(self.par, self.attr, val)\<close>, for the three attribute names a \<open>PanelText\<close> is
  built with. Any other name would add a fresh attribute to the Python object and leave the
  five fields alone.
\<close>

definition setattr_par :: "par \<Rightarrow> string \<Rightarrow> real \<Rightarrow> par" where
  "setattr_par p attr v =
     (if attr = ''val'' then p\<lparr>val := v\<rparr>
      else if attr = ''min'' then p\<lparr>min_val := v\<rparr>
      else if attr = ''max'' then p\<lparr>max_val := v\<rparr>
      else p)"

text \<open>
  \<open>PanelText._bounds_check\<close>: two \<open>if\<close> statements in sequence, the second one reading the
  value the first one may have written. The result is the message and the parameter.
\<close>

definition bounds_check :: "par \<Rightarrow> string option \<times> par" where
  "bounds_check p =
     (let (msg1, p1) =
            (if val p < min_val p
             then (Some ''Attempted to set parameter value below minimum. Setting to min value.'',
                   p\<lparr>val := min_val p\<rparr>)
             else (None, p))
      in if val p1 > max_val p1
         then (Some ''Attempted to set parameter value below maximum. Setting to max value.'',
               p1\<lparr>val := max_val p1\<rparr>)
         else (msg1, p1))"

subsection \<open>The slider\<close>

text \<open>
  \<open>PanelSlider\<close>: its own copies \<open>parmin\<close>, \<open>parmax\<close>, \<open>parval\<close>, the factors \<open>dx\<close> and
  \<open>idx\<close>, the flag \<open>update_plots\<close>, and of the underlying \<open>QSlider\<close> the range and the
  current position (\<open>self.value()\<close>).
\<close>

record slider =
  parmin :: real
  parmax :: real
  parval :: real
  dx :: real
  idx :: real
  update_plots :: bool
  minimum :: int
  maximum :: int
  position :: int

text \<open>Python's \<open>int(x)\<close> on a float truncates towards zero.\<close>

definition int_of_float :: "real \<Rightarrow> int" where
  "int_of_float x = (if 0 \<le> x then \<lfloor>x\<rfloor> else \<lceil>x\<rceil>)"

text \<open>\<open>QSlider.setValue\<close>: the new position is bounded by the slider's range.\<close>

definition setValue :: "int \<Rightarrow> slider \<Rightarrow> slider" where
  "setValue n s = s\<lparr>position := max (minimum s) (min (maximum s) n)\<rparr>"

text \<open>
  \<open>PanelSlider.set_dx\<close>. A float division raises \<open>ZeroDivisionError\<close> when the divisor is
  zero; there is no test before either division. The first assignment has been made when
  the second division raises.
\<close>

definition set_dx :: "slider \<Rightarrow> slider outcome" where
  "set_dx s =
     (if parmax s - parmin s = 0 then Raised ZeroDivisionError s
      else let s1 = s\<lparr>dx := 100 / (parmax s - parmin s)\<rparr>
           in if dx s1 = 0 then Raised ZeroDivisionError s1
              else Ok (s1\<lparr>idx := 1 / dx s1\<rparr>))"

definition set_step_from_value :: "real \<Rightarrow> slider \<Rightarrow> slider" where
  "set_step_from_value v s = setValue (int_of_float ((v - parmin s) * dx s)) s"

definition get_value_from_step :: "slider \<Rightarrow> real" where
  "get_value_from_step s = real_of_int (position s) * idx s + parmin s"

text \<open>\<open>setattr(self, "par{}".format(attr), val)\<close> on the slider.\<close>

definition setattr_slider :: "slider \<Rightarrow> string \<Rightarrow> real \<Rightarrow> slider" where
  "setattr_slider s name v =
     (if name = ''parval'' then s\<lparr>parval := v\<rparr>
      else if name = ''parmin'' then s\<lparr>parmin := v\<rparr>
      else if name = ''parmax'' then s\<lparr>parmax := v\<rparr>
      else s)"

definition update_slider_val :: "real \<Rightarrow> string \<Rightarrow> slider \<Rightarrow> slider outcome" where
  "update_slider_val v attr s =
     (let s1 = setattr_slider s (''par'' @ attr) v
      in if attr \<in> {''min'', ''max''}
         then (case set_dx s1 of
                 Raised e s2 \<Rightarrow> Raised e s2
               | Ok s2 \<Rightarrow> Ok (set_step_from_value (parval s2) s2))
         else Ok (set_step_from_value (parval s1) s1))"

definition block_plotting :: "bool \<Rightarrow> slider \<Rightarrow> slider" where
  "block_plotting block s = s\<lparr>update_plots := \<not> block\<rparr>"


subsection \<open>The parameter table and the window\<close>

text \<open>
  A row of \<open>ParamsPanel.params_table\<close>: the check box of column 0 (\<open>checked\<close> is
  \<open>isChecked()\<close>), the parameter and the slider of column 4. The three \<open>PanelText\<close>
  entries of a row are identified by the row and their attribute name.
\<close>

record row =
  checked :: bool
  par :: par
  slider :: slider

text \<open>
  A message of the worker is a dictionary; the code reads the keys \<open>status\<close> and
  \<open>parvals\<close>, and a key that is missing is \<open>None\<close>.
\<close>

record msg =
  status :: "string option"
  parvals :: "real list option"

text \<open>
  The state the monitor and the interpreter work on: the rows, the messages waiting in
  \<open>fit_worker.parent_pipe\<close> (oldest first), the number of calls of
  \<open>fit_process.join\<close>, the number of timers set with \<open>QTimer.singleShot\<close>, the number of
  calls of \<open>update_plots\<close>, the vectors assigned to \<open>model.parvals\<close> so far, and of the
  model the mask times and its first and last date.
\<close>

record gui =
  rows :: "row list"
  parent_pipe :: "msg list"
  join_calls :: nat
  timers :: nat
  plot_updates :: nat
  parvals_set :: "real list list"
  mask_times :: "string list list"
  datestart :: string
  datestop :: string

text \<open>
  \<open>PanelText.set_par_attr\<close> of the entry for \<open>attr\<close> in row \<open>i\<close>. The parameter is written
  and checked before the slider is told; when the slider raises, \<open>update_plots\<close> is not
  reached.
\<close>

definition set_par_attr :: "nat \<Rightarrow> string \<Rightarrow> real \<Rightarrow> gui \<Rightarrow> gui outcome" where
  "set_par_attr i attr v g =
     (let r = rows g ! i;
          (msg, p) = bounds_check (setattr_par (par r) attr v)
      in case update_slider_val v attr (slider r) of
           Raised e s \<Rightarrow> Raised e (g\<lparr>rows := (rows g)[i := r\<lparr>par := p, slider := s\<rparr>]\<rparr>)
         | Ok s \<Rightarrow> Ok (g\<lparr>rows := (rows g)[i := r\<lparr>par := p, slider := s\<rparr>],
                         plot_updates := Suc (plot_updates g)\<rparr>))"

text \<open>
  Python's \<open>str.strip()\<close> over the ASCII white space (\<open>str.isspace\<close>: the codes 9 to 13,
  28 to 32).
\<close>

definition isspace :: "char \<Rightarrow> bool" where
  "isspace c = (let n = (of_char c :: nat) in (9 \<le> n \<and> n \<le> 13) \<or> (28 \<le> n \<and> n \<le> 32))"

definition strip :: "string \<Rightarrow> string" where
  "strip s = rev (dropWhile isspace (rev (dropWhile isspace s)))"

text \<open>
  \<open>PanelText.par_attr_changed\<close>. Python's \<open>float\<close> is the parameter \<open>pyfloat\<close>: \<open>None\<close>
  stands for its \<open>ValueError\<close>, which the method catches and drops.
\<close>

definition par_attr_changed ::
  "(string \<Rightarrow> real option) \<Rightarrow> nat \<Rightarrow> string \<Rightarrow> string \<Rightarrow> gui \<Rightarrow> gui outcome" where
  "par_attr_changed pyfloat i attr entry g =
     (case pyfloat (strip entry) of
        None \<Rightarrow> Ok g
      | Some v \<Rightarrow> set_par_attr i attr v g)"

text \<open>\<open>PanelSlider.slider_moved\<close> of the slider in row \<open>i\<close>.\<close>

definition slider_moved :: "nat \<Rightarrow> gui \<Rightarrow> gui" where
  "slider_moved i g =
     (let r = rows g ! i;
          v = get_value_from_step (slider r);
          g1 = g\<lparr>rows := (rows g)[i := r\<lparr>par := (par r)\<lparr>val := v\<rparr>\<rparr>]\<rparr>
      in if update_plots (slider r) then g1\<lparr>plot_updates := Suc (plot_updates g1)\<rparr> else g1)"

text \<open>\<open>PanelCheckBox.frozen_toggled\<close>, with the state \<open>Qt.Checked\<close> as \<open>True\<close>.\<close>

definition frozen_toggled :: "bool \<Rightarrow> row \<Rightarrow> row" where
  "frozen_toggled state r = r\<lparr>par := (par r)\<lparr>frozen := \<not> state\<rparr>\<rparr>"

text \<open>
  \<open>QCheckBox.setChecked\<close>: when the state changes, \<open>stateChanged\<close> is emitted, which is
  connected to \<open>frozen_toggled\<close>.
\<close>

definition setChecked :: "bool \<Rightarrow> row \<Rightarrow> row" where
  "setChecked b r = (if checked r = b then r else frozen_toggled b (r\<lparr>checked := b\<rparr>))"

text \<open>
  \<open>ParamsPanel.update\<close>. The test compares the text of a bound method with the formatted
  value, which differ, so every row is refreshed.
\<close>

definition update_row :: "row \<Rightarrow> row" where
  "update_row r =
     r\<lparr>slider := block_plotting False
                    (set_step_from_value (val (par r)) (block_plotting True (slider r)))\<rparr>"

definition ParamsPanel_update :: "gui \<Rightarrow> gui" where
  "ParamsPanel_update g = g\<lparr>rows := map update_row (rows g)\<rparr>"

subsection \<open>The monitoring tick\<close>

text \<open>
  Modelled from the spec: the setter of \<open>model.parvals\<close> belongs to the thermal model and
  is not part of \<open>app.py\<close>. The specification's \<open>bulkUpdate\<close> overwrites every \<open>val\<close> in
  the order of the parameters and fails with \<open>ShapeMismatch\<close>, changing nothing, when the
  vector's length is not the number of parameters. The model of the worker
  (\<open>fit_worker.model\<close>) is taken to be the model whose parameters the panel shows, as
  \<open>main\<close> passes one model to both.
\<close>

definition set_parvals :: "real list \<Rightarrow> gui \<Rightarrow> gui outcome" where
  "set_parvals vs g =
     (if length vs \<noteq> length (rows g) then Raised ShapeMismatch g
      else Ok (g\<lparr>rows := map2 (\<lambda>r v. r\<lparr>par := (par r)\<lparr>val := v\<rparr>\<rparr>) (rows g) vs,
                 parvals_set := parvals_set g @ [vs]\<rparr>))"

text \<open>
  The \<open>while\<close> loop of \<open>fit_monitor\<close> over the messages that \<open>poll\<close> finds, with the locals
  \<open>msg\<close> and \<open>fit_stopped\<close>. It returns them with the state, in which the messages not
  received are left in the pipe. The messages of a tick are those waiting when it starts:
  the worker adds none while the loop runs.
\<close>

fun poll_loop :: "msg list \<Rightarrow> msg option \<Rightarrow> gui \<Rightarrow> (msg option \<times> bool \<times> gui) outcome" where
  "poll_loop [] cur g = Ok (cur, False, g\<lparr>parent_pipe := []\<rparr>)"
| "poll_loop (m # pipe) cur g =
     (case status m of
        None \<Rightarrow> Raised KeyError (Some m, False, g\<lparr>parent_pipe := pipe\<rparr>)
      | Some st \<Rightarrow>
          if st \<in> {''terminated'', ''finished''}
          then Ok (Some m, True, g\<lparr>parent_pipe := pipe, join_calls := Suc (join_calls g)\<rparr>)
          else poll_loop pipe (Some m) g)"

text \<open>
  The body of \<open>if msg:\<close>. A message that got through the loop has the key \<open>status\<close>, so
  as a dictionary it is not empty and the test is whether a message was received.
\<close>

definition apply_msg :: "msg option \<Rightarrow> gui \<Rightarrow> gui outcome" where
  "apply_msg cur g =
     (case cur of
        None \<Rightarrow> Ok g
      | Some m \<Rightarrow>
          (case parvals m of
             None \<Rightarrow> Raised KeyError g
           | Some vs \<Rightarrow>
               (case set_parvals vs g of
                  Raised e g1 \<Rightarrow> Raised e g1
                | Ok g1 \<Rightarrow>
                    Ok ((ParamsPanel_update g1)\<lparr>plot_updates := Suc (plot_updates g1)\<rparr>))))"

definition fit_monitor :: "gui \<Rightarrow> gui outcome" where
  "fit_monitor g =
     (case poll_loop (parent_pipe g) None g of
        Raised e (cur, fit_stopped, g1) \<Rightarrow> Raised e g1
      | Ok (cur, fit_stopped, g1) \<Rightarrow>
          (case apply_msg cur g1 of
             Raised e g2 \<Rightarrow> Raised e g2
           | Ok g2 \<Rightarrow>
               Ok (if \<not> fit_stopped then g2\<lparr>timers := Suc (timers g2)\<rparr> else g2)))"

text \<open>The value of the local \<open>fit_stopped\<close> when the loop of a tick is left.\<close>

definition fit_stopped_after :: "gui \<Rightarrow> bool" where
  "fit_stopped_after g =
     (case poll_loop (parent_pipe g) None g of
        Raised e (cur, fit_stopped, g1) \<Rightarrow> fit_stopped
      | Ok (cur, fit_stopped, g1) \<Rightarrow> fit_stopped)"

subsection \<open>The command interpreter\<close>

text \<open>
  \<open>command.split()\<close>: the maximal runs of characters that are not white space.
  \<open>split_tok\<close> reads the characters with the token begun so far, reversed.
\<close>

fun split_tok :: "string \<Rightarrow> string \<Rightarrow> string list" where
  "split_tok tok [] = (if tok = [] then [] else [rev tok])"
| "split_tok tok (c # cs) =
     (if isspace c
      then (if tok = [] then split_tok [] cs else rev tok # split_tok [] cs)
      else split_tok (c # tok) cs)"

definition split_ws :: "string \<Rightarrow> string list" where
  "split_ws s = split_tok [] s"

text \<open>\<open>s.split(sep)\<close> for a separator of one character: empty pieces are kept.\<close>

fun split_sep :: "char \<Rightarrow> string \<Rightarrow> string list" where
  "split_sep sep [] = [[]]"
| "split_sep sep (c # cs) =
     (if c = sep then [] # split_sep sep cs
      else (case split_sep sep cs of
              [] \<Rightarrow> [[c]]
            | t # ts \<Rightarrow> (c # t) # ts))"

text \<open>
  The inner loop of \<open>freeze\<close> and \<open>thaw\<close> for one row. \<open>fnmatch pat name\<close> stands for
  \<open>re.match(fnmatch.translate(pat), name)\<close> of the Python library.
\<close>

definition freeze_thaw_row :: "(string \<Rightarrow> string \<Rightarrow> bool) \<Rightarrow> string \<Rightarrow> string list \<Rightarrow> row \<Rightarrow> row" where
  "freeze_thaw_row fnmatch cmd pats r =
     fold (\<lambda>pat r1.
             if fnmatch pat (full_name (par r1))
             then (let r2 = setChecked (cmd = ''thaw'') r1
                   in r2\<lparr>par := (par r2)\<lparr>frozen := (cmd \<noteq> ''thaw'')\<rparr>\<rparr>)
             else r1)
          pats r"

text \<open>
  The \<open>try\<close> block of \<open>ignore\<close>: \<open>None\<close> when \<open>IndexError\<close> or \<open>ChandraTimeError\<close> is
  caught. \<open>DateTime lim\<close> stands for \<open>DateTime(lim).date\<close> of the Chandra library, with
  \<open>None\<close> for its \<open>ChandraTimeError\<close>.
\<close>

definition ignore_lim :: "(string list \<Rightarrow> string list option) \<Rightarrow> string \<Rightarrow> gui \<Rightarrow> string list option" where
  "ignore_lim DateTime arg g =
     (case split_sep CHR ''-'' arg of
        [] \<Rightarrow> None
      | [l0] \<Rightarrow> None
      | l0 # l1 # ls \<Rightarrow>
          DateTime ((if l0 = ''*'' then datestart g else l0) #
                    (if l1 = ''*'' then datestop g else l1) # ls))"

text \<open>
  Modelled from the spec: \<open>append_mask_times\<close> and \<open>reset_mask_times\<close> are methods of
  the thermal model and are not part of \<open>app.py\<close>. The specification's mask grows by one
  interval with \<open>ignore\<close> and is cleared entirely by \<open>notice\<close>.
\<close>

definition append_mask_times :: "string list \<Rightarrow> gui \<Rightarrow> gui" where
  "append_mask_times dates g = g\<lparr>mask_times := mask_times g @ [dates]\<rparr>"

definition reset_mask_times :: "gui \<Rightarrow> gui" where
  "reset_mask_times g = g\<lparr>mask_times := []\<rparr>"

text \<open>
  \<open>MainWindow.parse_command\<close>. A bad command and a bad argument are reported on the
  console and the method returns.
\<close>

definition parse_command ::
  "(string \<Rightarrow> string \<Rightarrow> bool) \<Rightarrow> (string list \<Rightarrow> string list option) \<Rightarrow> string \<Rightarrow> gui \<Rightarrow> gui outcome" where
  "parse_command fnmatch DateTime command g =
     (case split_ws command of
        [] \<Rightarrow> Raised IndexError g
      | cmd # args \<Rightarrow>
          if cmd \<notin> {''freeze'', ''thaw'', ''ignore'', ''notice''} \<or>
             (cmd \<noteq> ''notice'' \<and> length (cmd # args) < 2)
          then Ok g
          else if cmd \<in> {''freeze'', ''thaw''}
          then Ok (g\<lparr>rows := map (freeze_thaw_row fnmatch cmd args) (rows g)\<rparr>)
          else if cmd = ''ignore''
          then (case args of
                  [] \<Rightarrow> Raised IndexError g
                | arg # _ \<Rightarrow>
                    (case ignore_lim DateTime arg g of
                       None \<Rightarrow> Ok g
                     | Some dates \<Rightarrow>
                         Ok ((append_mask_times dates g)\<lparr>plot_updates := Suc (plot_updates g)\<rparr>)))
          else if length (cmd # args) > 1
          then Ok g
          else Ok ((reset_mask_times g)\<lparr>plot_updates := Suc (plot_updates g)\<rparr>))"

text \<open>\<open>MainWindow.command_activated\<close> on the text of the command entry.\<close>

definition command_activated ::
  "(string \<Rightarrow> string \<Rightarrow> bool) \<Rightarrow> (string list \<Rightarrow> string list option) \<Rightarrow> string \<Rightarrow> gui \<Rightarrow> gui outcome" where
  "command_activated fnmatch DateTime entry g =
     (let command = strip entry
      in if command = [] then Ok g else parse_command fnmatch DateTime command g)"

text \<open>
  A matcher for patterns made of ordinary characters, \<open>*\<close> and \<open>?\<close>, matched against the
  whole name. On patterns without \<open>[\<close> it is what \<open>fnmatch.translate\<close> with \<open>re.match\<close>
  decides; it serves as an instance of the parameter \<open>fnmatch\<close>.
\<close>

fun glob :: "string \<Rightarrow> string \<Rightarrow> bool" where
  "glob [] s = (s = [])"
| "glob (p # ps) [] = (p = CHR ''*'' \<and> glob ps [])"
| "glob (p # ps) (c # cs) =
     (if p = CHR ''*'' then glob ps (c # cs) \<or> glob (p # ps) cs
      else (p = CHR ''?'' \<or> p = c) \<and> glob ps cs)"

section \<open>Properties\<close>

subsection \<open>Writing a value or a bound through a text entry\<close>

text \<open>
  What \<open>set_par_attr\<close> leaves in the parameter of its row, whether the slider raised or
  not: the attribute is written and checked before the slider is told.
\<close>

lemma par_after_set_par_attr:
  assumes "i < length (rows g)"
  shows "par (rows (state_of (set_par_attr i attr v g)) ! i) =
         snd (bounds_check (setattr_par (par (rows g ! i)) attr v))"
  using assms
  by (simp add: set_par_attr_def Let_def split: prod.splits outcome.splits)








text \<open>
  Claim C4, as amended. Writing \<open>min\<close> or \<open>max\<close> through its entry stores the bound and
  then runs the same check as a write of the value, on the value the parameter holds. The
  value is unchanged when the new bounds contain it; a value below the new \<open>min\<close> becomes
  \<open>min\<close> (and then \<open>max\<close>, if \<open>min > max\<close>), a value above the new \<open>max\<close> becomes \<open>max\<close>.
\<close>

theorem set_par_attr_bound_rechecks_val:
  assumes "i < length (rows g)" and "attr = ''min'' \<or> attr = ''max''"
  shows "min_val (par (rows (state_of (set_par_attr i attr v g)) ! i)) =
           min_val (setattr_par (par (rows g ! i)) attr v) \<and>
         max_val (par (rows (state_of (set_par_attr i attr v g)) ! i)) =
           max_val (setattr_par (par (rows g ! i)) attr v) \<and>
         val (par (rows (state_of (set_par_attr i attr v g)) ! i)) =
           (if val (par (rows g ! i)) < min_val (setattr_par (par (rows g ! i)) attr v)
            then (if min_val (setattr_par (par (rows g ! i)) attr v)
                       > max_val (setattr_par (par (rows g ! i)) attr v)
                  then max_val (setattr_par (par (rows g ! i)) attr v)
                  else min_val (setattr_par (par (rows g ! i)) attr v))
            else if val (par (rows g ! i)) > max_val (setattr_par (par (rows g ! i)) attr v)
            then max_val (setattr_par (par (rows g ! i)) attr v)
            else val (par (rows g ! i)))"
  using assms
  by (auto simp add: par_after_set_par_attr bounds_check_def setattr_par_def Let_def)

theorem set_par_attr_bound_rechecks_val_witness:
  "let g = \<lparr>rows = [\<lparr>checked = True,
               par = \<lparr>full_name = ''p'', val = 3, min_val = 0, max_val = 10, frozen = False\<rparr>,
               slider = \<lparr>parmin = 0, parmax = 10, parval = 3, dx = 10, idx = 1 / 10,
                          update_plots = True, minimum = 0, maximum = 100, position = 30\<rparr>\<rparr>],
      parent_pipe = [],
      join_calls = 0, timers = 0, plot_updates = 0, parvals_set = [],
      mask_times = [], datestart = ''2020:001'', datestop = ''2020:100''\<rparr>
   in val (par (rows (state_of (set_par_attr 0 ''max'' 20 g)) ! 0)) = 3 \<and>
      max_val (par (rows (state_of (set_par_attr 0 ''max'' 20 g)) ! 0)) = 20 \<and>
      val (par (rows (state_of (set_par_attr 0 ''max'' 2 g)) ! 0)) = 2"
  using set_par_attr_bound_rechecks_val [of 0 "\<lparr>rows = [\<lparr>checked = True,
               par = \<lparr>full_name = ''p'', val = 3, min_val = 0, max_val = 10, frozen = False\<rparr>,
               slider = \<lparr>parmin = 0, parmax = 10, parval = 3, dx = 10, idx = 1 / 10,
                          update_plots = True, minimum = 0, maximum = 100, position = 30\<rparr>\<rparr>],
      parent_pipe = [],
      join_calls = 0, timers = 0, plot_updates = 0, parvals_set = [],
      mask_times = [], datestart = ''2020:001'', datestop = ''2020:100''\<rparr>" "''max''" 20]
    set_par_attr_bound_rechecks_val [of 0 "\<lparr>rows = [\<lparr>checked = True,
               par = \<lparr>full_name = ''p'', val = 3, min_val = 0, max_val = 10, frozen = False\<rparr>,
               slider = \<lparr>parmin = 0, parmax = 10, parval = 3, dx = 10, idx = 1 / 10,
                          update_plots = True, minimum = 0, maximum = 100, position = 30\<rparr>\<rparr>],
      parent_pipe = [],
      join_calls = 0, timers = 0, plot_updates = 0, parvals_set = [],
      mask_times = [], datestart = ''2020:001'', datestop = ''2020:100''\<rparr>" "''max''" 2]
  by (simp add: Let_def setattr_par_def)

text \<open>
  A value of 3 between the bounds 0 and 10 does not survive the write of \<open>min = 5\<close>: it
  becomes 5.
\<close>

theorem set_par_attr_min_moves_val:
  "let g = \<lparr>rows = [\<lparr>checked = True,
               par = \<lparr>full_name = ''p'', val = 3, min_val = 0, max_val = 10, frozen = False\<rparr>,
               slider = \<lparr>parmin = 0, parmax = 10, parval = 3, dx = 10, idx = 1 / 10,
                          update_plots = True, minimum = 0, maximum = 100, position = 30\<rparr>\<rparr>],
      parent_pipe = [],
      join_calls = 0, timers = 0, plot_updates = 0, parvals_set = [],
      mask_times = [], datestart = ''2020:001'', datestop = ''2020:100''\<rparr>
   in val (par (rows g ! 0)) = 3 \<and>
      val (par (rows (state_of (set_par_attr 0 ''min'' 5 g)) ! 0)) = 5"
  by (simp add: par_after_set_par_attr bounds_check_def setattr_par_def Let_def)

subsection \<open>The slider's scale\<close>












subsection \<open>The monitoring tick\<close>

lemma poll_loop_skip:
  assumes "\<forall>x\<in>set pre. \<exists>st. status x = Some st \<and> st \<noteq> ''terminated'' \<and> st \<noteq> ''finished''"
  shows "poll_loop (pre @ rest) cur g = poll_loop rest (if pre = [] then cur else Some (last pre)) g"
  using assms
proof (induction pre arbitrary: cur)
  case Nil
  then show ?case by simp
next
  case (Cons x pre)
  from Cons.prems obtain st where st: "status x = Some st" "st \<noteq> ''terminated''" "st \<noteq> ''finished''"
    by auto
  from Cons.prems have rest: "\<forall>y\<in>set pre. \<exists>st. status y = Some st \<and> st \<noteq> ''terminated'' \<and> st \<noteq> ''finished''"
    by simp
  show ?case
    using st Cons.IH [OF rest, of "Some x"] by simp
qed

lemma poll_loop_stop:
  assumes "status m = None \<or> status m = Some ''terminated'' \<or> status m = Some ''finished'' \<or> post = []"
  shows "poll_loop (m # post) cur g =
     (case status m of
        None \<Rightarrow> Raised KeyError (Some m, False, g\<lparr>parent_pipe := post\<rparr>)
      | Some st \<Rightarrow>
          if st = ''terminated'' \<or> st = ''finished''
          then Ok (Some m, True, g\<lparr>parent_pipe := post, join_calls := Suc (join_calls g)\<rparr>)
          else Ok (Some m, False, g\<lparr>parent_pipe := post\<rparr>))"
  using assms by (auto split: option.splits)

text \<open>
  Claim C2. With the messages \<open>running [1, 2]\<close>, \<open>running [1, 3]\<close>, \<open>finished [1, 4]\<close>
  waiting and two parameters, one tick returns normally, receives all three messages in
  order, leaves the loop with \<open>fit_stopped\<close> set, assigns \<open>model.parvals\<close> once, with
  \<open>[1, 4]\<close>, joins the worker once and sets no new timer.
\<close>

theorem fit_monitor_batch:
  assumes pipe: "parent_pipe g =
      [\<lparr>status = Some ''running'', parvals = Some [1, 2]\<rparr>,
       \<lparr>status = Some ''running'', parvals = Some [1, 3]\<rparr>,
       \<lparr>status = Some ''finished'', parvals = Some [1, 4]\<rparr>]"
    and two: "length (rows g) = 2"
  shows "raised (fit_monitor g) = None \<and>
         fit_stopped_after g \<and>
         parent_pipe (state_of (fit_monitor g)) = [] \<and>
         map (\<lambda>r. val (par r)) (rows (state_of (fit_monitor g))) = [1, 4] \<and>
         parvals_set (state_of (fit_monitor g)) = parvals_set g @ [[1, 4]] \<and>
         join_calls (state_of (fit_monitor g)) = Suc (join_calls g) \<and>
         timers (state_of (fit_monitor g)) = timers g"
proof -
  from two obtain r1 r2 where rs: "rows g = [r1, r2]"
    by (cases "rows g"; cases "tl (rows g)") auto
  show ?thesis
    by (simp add: fit_monitor_def fit_stopped_after_def pipe rs apply_msg_def set_parvals_def
        ParamsPanel_update_def update_row_def)
qed

theorem fit_monitor_batch_witness:
  "let g = \<lparr>rows = [\<lparr>checked = True,
               par = \<lparr>full_name = ''a'', val = 0, min_val = 0, max_val = 10, frozen = False\<rparr>,
               slider = \<lparr>parmin = 0, parmax = 10, parval = 0, dx = 10, idx = 1 / 10,
                          update_plots = True, minimum = 0, maximum = 100, position = 0\<rparr>\<rparr>,
              \<lparr>checked = True,
               par = \<lparr>full_name = ''b'', val = 2, min_val = 0, max_val = 10, frozen = False\<rparr>,
               slider = \<lparr>parmin = 0, parmax = 10, parval = 2, dx = 10, idx = 1 / 10,
                          update_plots = True, minimum = 0, maximum = 100, position = 20\<rparr>\<rparr>],
      parent_pipe = [\<lparr>status = Some ''running'', parvals = Some [1, 2]\<rparr>,
                     \<lparr>status = Some ''running'', parvals = Some [1, 3]\<rparr>,
                     \<lparr>status = Some ''finished'', parvals = Some [1, 4]\<rparr>],
      join_calls = 0, timers = 0, plot_updates = 0, parvals_set = [],
      mask_times = [], datestart = ''2020:001'', datestop = ''2020:100''\<rparr>
   in raised (fit_monitor g) = None \<and> fit_stopped_after g \<and>
      parent_pipe (state_of (fit_monitor g)) = [] \<and>
      map (\<lambda>r. val (par r)) (rows (state_of (fit_monitor g))) = [1, 4] \<and>
      parvals_set (state_of (fit_monitor g)) = [[1, 4]] \<and>
      join_calls (state_of (fit_monitor g)) = 1 \<and>
      timers (state_of (fit_monitor g)) = 0"
  using fit_monitor_batch [of "\<lparr>rows = [\<lparr>checked = True,
               par = \<lparr>full_name = ''a'', val = 0, min_val = 0, max_val = 10, frozen = False\<rparr>,
               slider = \<lparr>parmin = 0, parmax = 10, parval = 0, dx = 10, idx = 1 / 10,
                          update_plots = True, minimum = 0, maximum = 100, position = 0\<rparr>\<rparr>,
              \<lparr>checked = True,
               par = \<lparr>full_name = ''b'', val = 2, min_val = 0, max_val = 10, frozen = False\<rparr>,
               slider = \<lparr>parmin = 0, parmax = 10, parval = 2, dx = 10, idx = 1 / 10,
                          update_plots = True, minimum = 0, maximum = 100, position = 20\<rparr>\<rparr>],
      parent_pipe = [\<lparr>status = Some ''running'', parvals = Some [1, 2]\<rparr>,
                     \<lparr>status = Some ''running'', parvals = Some [1, 3]\<rparr>,
                     \<lparr>status = Some ''finished'', parvals = Some [1, 4]\<rparr>],
      join_calls = 0, timers = 0, plot_updates = 0, parvals_set = [],
      mask_times = [], datestart = ''2020:001'', datestop = ''2020:100''\<rparr>"]
  by (simp add: Let_def)

text \<open>
  Claim C9, as amended. A malformed message is not skipped. When the last message a tick
  receives has no \<open>status\<close>, has no \<open>parvals\<close> or has a vector of the wrong length, the
  tick ends with an exception (\<open>KeyError\<close> for a missing key, the setter's error for the
  length): the messages up to and including it have left the pipe, no parameter value has
  changed, nothing was assigned to \<open>model.parvals\<close> and no timer is set.
  The last message received is the first one without \<open>status\<close> or with a status of
  \<open>terminated\<close> or \<open>finished\<close>, or else the last one waiting.
\<close>

theorem fit_monitor_malformed_raises:
  assumes pipe: "parent_pipe g = pre @ m # post"
    and pre: "\<forall>x\<in>set pre. \<exists>st. status x = Some st \<and> st \<noteq> ''terminated'' \<and> st \<noteq> ''finished''"
    and stop: "status m = None \<or> status m = Some ''terminated'' \<or> status m = Some ''finished'' \<or> post = []"
    and bad: "status m = None \<or> parvals m = None \<or>
              (\<exists>vs. parvals m = Some vs \<and> length vs \<noteq> length (rows g))"
  shows "raised (fit_monitor g) =
           Some (if status m = None \<or> parvals m = None then KeyError else ShapeMismatch) \<and>
         rows (state_of (fit_monitor g)) = rows g \<and>
         parvals_set (state_of (fit_monitor g)) = parvals_set g \<and>
         timers (state_of (fit_monitor g)) = timers g \<and>
         parent_pipe (state_of (fit_monitor g)) = post"
proof -
  have loop: "poll_loop (parent_pipe g) None g =
     (case status m of
        None \<Rightarrow> Raised KeyError (Some m, False, g\<lparr>parent_pipe := post\<rparr>)
      | Some st \<Rightarrow>
          if st = ''terminated'' \<or> st = ''finished''
          then Ok (Some m, True, g\<lparr>parent_pipe := post, join_calls := Suc (join_calls g)\<rparr>)
          else Ok (Some m, False, g\<lparr>parent_pipe := post\<rparr>))"
    by (simp only: pipe poll_loop_skip [OF pre] poll_loop_stop [OF stop])
  show ?thesis
  proof (cases "status m")
    case None
    then show ?thesis by (simp add: fit_monitor_def loop)
  next
    case (Some st)
    with bad have bad': "parvals m = None \<or> (\<exists>vs. parvals m = Some vs \<and> length vs \<noteq> length (rows g))"
      by simp
    then show ?thesis
      using Some
      by (auto simp add: fit_monitor_def loop apply_msg_def set_parvals_def)
  qed
qed

theorem fit_monitor_malformed_raises_witness:
  "let g = \<lparr>rows = [\<lparr>checked = True,
               par = \<lparr>full_name = ''a'', val = 0, min_val = 0, max_val = 10, frozen = False\<rparr>,
               slider = \<lparr>parmin = 0, parmax = 10, parval = 0, dx = 10, idx = 1 / 10,
                          update_plots = True, minimum = 0, maximum = 100, position = 0\<rparr>\<rparr>,
              \<lparr>checked = True,
               par = \<lparr>full_name = ''b'', val = 2, min_val = 0, max_val = 10, frozen = False\<rparr>,
               slider = \<lparr>parmin = 0, parmax = 10, parval = 2, dx = 10, idx = 1 / 10,
                          update_plots = True, minimum = 0, maximum = 100, position = 20\<rparr>\<rparr>],
      parent_pipe = [\<lparr>status = Some ''running'', parvals = Some [1, 2]\<rparr>,
                     \<lparr>status = Some ''finished'', parvals = Some [1, 2, 3]\<rparr>,
                     \<lparr>status = Some ''running'', parvals = Some [1, 5]\<rparr>],
      join_calls = 0, timers = 0, plot_updates = 0, parvals_set = [],
      mask_times = [], datestart = ''2020:001'', datestop = ''2020:100''\<rparr>
   in raised (fit_monitor g) = Some ShapeMismatch \<and>
      rows (state_of (fit_monitor g)) = rows g \<and>
      timers (state_of (fit_monitor g)) = 0 \<and>
      parent_pipe (state_of (fit_monitor g)) = [\<lparr>status = Some ''running'', parvals = Some [1, 5]\<rparr>]"
  using fit_monitor_malformed_raises [of "\<lparr>rows = [\<lparr>checked = True,
               par = \<lparr>full_name = ''a'', val = 0, min_val = 0, max_val = 10, frozen = False\<rparr>,
               slider = \<lparr>parmin = 0, parmax = 10, parval = 0, dx = 10, idx = 1 / 10,
                          update_plots = True, minimum = 0, maximum = 100, position = 0\<rparr>\<rparr>,
              \<lparr>checked = True,
               par = \<lparr>full_name = ''b'', val = 2, min_val = 0, max_val = 10, frozen = False\<rparr>,
               slider = \<lparr>parmin = 0, parmax = 10, parval = 2, dx = 10, idx = 1 / 10,
                          update_plots = True, minimum = 0, maximum = 100, position = 20\<rparr>\<rparr>],
      parent_pipe = [\<lparr>status = Some ''running'', parvals = Some [1, 2]\<rparr>,
                     \<lparr>status = Some ''finished'', parvals = Some [1, 2, 3]\<rparr>,
                     \<lparr>status = Some ''running'', parvals = Some [1, 5]\<rparr>],
      join_calls = 0, timers = 0, plot_updates = 0, parvals_set = [],
      mask_times = [], datestart = ''2020:001'', datestop = ''2020:100''\<rparr>"
      "[\<lparr>status = Some ''running'', parvals = Some [1, 2]\<rparr>]"
      "\<lparr>status = Some ''finished'', parvals = Some [1, 2, 3]\<rparr>"
      "[\<lparr>status = Some ''running'', parvals = Some [1, 5]\<rparr>]"]
  by (simp add: Let_def)

text \<open>
  One waiting message without \<open>status\<close>: the tick raises \<open>KeyError\<close>, the message is gone
  and the number of timers is what it was, so no further tick is scheduled.
\<close>

theorem fit_monitor_missing_status_not_rearmed:
  "let g = \<lparr>rows = [\<lparr>checked = True,
               par = \<lparr>full_name = ''a'', val = 0, min_val = 0, max_val = 10, frozen = False\<rparr>,
               slider = \<lparr>parmin = 0, parmax = 10, parval = 0, dx = 10, idx = 1 / 10,
                          update_plots = True, minimum = 0, maximum = 100, position = 0\<rparr>\<rparr>,
              \<lparr>checked = True,
               par = \<lparr>full_name = ''b'', val = 2, min_val = 0, max_val = 10, frozen = False\<rparr>,
               slider = \<lparr>parmin = 0, parmax = 10, parval = 2, dx = 10, idx = 1 / 10,
                          update_plots = True, minimum = 0, maximum = 100, position = 20\<rparr>\<rparr>],
      parent_pipe = [\<lparr>status = None, parvals = Some [1, 2]\<rparr>],
      join_calls = 0, timers = 0, plot_updates = 0, parvals_set = [],
      mask_times = [], datestart = ''2020:001'', datestop = ''2020:100''\<rparr>
   in raised (fit_monitor g) = Some KeyError \<and>
      parent_pipe (state_of (fit_monitor g)) = [] \<and>
      timers (state_of (fit_monitor g)) = timers g"
  by (simp add: fit_monitor_def Let_def)

subsection \<open>Freeze and thaw\<close>

text \<open>
  The matcher \<open>glob\<close> matches the whole name: a pattern that fits only the beginning or
  only the end of a name does not match it.
\<close>

lemma glob_whole_name:
  "glob ''foo*'' ''foo.bar'' \<and> \<not> glob ''foo*'' ''xfoo.bar'' \<and> \<not> glob ''foo'' ''foo.bar'' \<and>
   glob ''*_P?'' ''solarheat_P1'' \<and> \<not> glob ''*_P?'' ''solarheat_P12''"
  by simp





subsection \<open>Text that is not a number\<close>

text \<open>
  Claim C10. When the text of a value, \<open>min\<close> or \<open>max\<close> entry, stripped, is not accepted by
  \<open>float\<close>, \<open>par_attr_changed\<close> returns normally and the whole state is what it was: no
  attribute is written, no check is made, the slider is not told and \<open>update_plots\<close> is
  not called.
\<close>

theorem par_attr_changed_not_a_float:
  assumes "pyfloat (strip entry) = None"
  shows "par_attr_changed pyfloat i attr entry g = Ok g"
  using assms by (simp add: par_attr_changed_def)

theorem par_attr_changed_not_a_float_witness:
  "par_attr_changed (\<lambda>s. if s = ''1.5'' then Some (3 / 2) else None) 0 ''val'' '' abc''
     \<lparr>rows = [\<lparr>checked = True,
               par = \<lparr>full_name = ''p'', val = 3, min_val = 0, max_val = 10, frozen = False\<rparr>,
               slider = \<lparr>parmin = 0, parmax = 10, parval = 3, dx = 10, idx = 1 / 10,
                          update_plots = True, minimum = 0, maximum = 100, position = 30\<rparr>\<rparr>],
      parent_pipe = [],
      join_calls = 0, timers = 0, plot_updates = 0, parvals_set = [],
      mask_times = [], datestart = ''2020:001'', datestop = ''2020:100''\<rparr> =
   Ok \<lparr>rows = [\<lparr>checked = True,
               par = \<lparr>full_name = ''p'', val = 3, min_val = 0, max_val = 10, frozen = False\<rparr>,
               slider = \<lparr>parmin = 0, parmax = 10, parval = 3, dx = 10, idx = 1 / 10,
                          update_plots = True, minimum = 0, maximum = 100, position = 30\<rparr>\<rparr>],
      parent_pipe = [],
      join_calls = 0, timers = 0, plot_updates = 0, parvals_set = [],
      mask_times = [], datestart = ''2020:001'', datestop = ''2020:100''\<rparr>"
  using par_attr_changed_not_a_float [of "\<lambda>s. if s = ''1.5'' then Some (3 / 2) else None" "'' abc''" 0 "''val''"
     "\<lparr>rows = [\<lparr>checked = True,
               par = \<lparr>full_name = ''p'', val = 3, min_val = 0, max_val = 10, frozen = False\<rparr>,
               slider = \<lparr>parmin = 0, parmax = 10, parval = 3, dx = 10, idx = 1 / 10,
                          update_plots = True, minimum = 0, maximum = 100, position = 30\<rparr>\<rparr>],
      parent_pipe = [],
      join_calls = 0, timers = 0, plot_updates = 0, parvals_set = [],
      mask_times = [], datestart = ''2020:001'', datestop = ''2020:100''\<rparr>"]
  by (simp add: strip_def isspace_def)

end
